theory Spec2Isabelle
  imports Main "HOL-Library.AList" "HOL-Library.Char_ord"
begin

section \<open>Data model\<close>

text \<open>
  The evaluation document of \<^verbatim>\<open>models/CarEvaluation.ts\<close> and the interfaces of
  \<^verbatim>\<open>types/index.ts\<close>. A JavaScript property that may be \<^verbatim>\<open>undefined\<close> is an
  \<open>option\<close>. Numbers are modelled as \<open>int\<close>: the operations below only test them for
  presence, for being zero and against integer bounds. Dates are milliseconds (\<open>nat\<close>).
\<close>

type_synonym objectId = string
type_synonym date = nat

datatype evalStatus = Draft | Analyzing | In_progress | Awaiting_carfax | Completed | Archived

datatype passFail = PF_pass | PF_fail

datatype resultStatus = RS_pass | RS_fail | RS_warning

datatype priority = Low | Medium | High

record car_details =
  cd_year :: "int option"
  cd_make :: "string option"
  cd_model :: "string option"
  cd_mileage :: "int option"
  cd_price :: "int option"
  cd_vin :: "string option"
  cd_description :: "string option"

record photo =
  ph_id :: string
  ph_filename :: string
  ph_url :: string
  ph_uploadedAt :: date

record carfax_report =
  cr_accidents :: int
  cr_owners :: int
  cr_serviceRecords :: int
  cr_titleIssues :: "string list"
  cr_recalls :: int

record carfax_data =
  cf_requested :: bool
  cf_purchased :: bool
  cf_wantCarfax :: bool
  cf_price :: int
  cf_vin :: string
  cf_reportId :: "string option"
  cf_data :: "carfax_report option"

record comparable =
  cmp_source :: string
  cmp_price :: int
  cmp_mileage :: int
  cmp_location :: string

record market_analysis =
  ma_estimatedValue :: "int option"
  ma_priceVsMarket :: "int option"
  ma_dealScore :: "int option"
  ma_comparable :: "comparable list"

record inspection_result =
  ir_category :: string
  ir_item :: string
  ir_status :: resultStatus
  ir_notes :: "string option"

record general_inspection =
  g_completed :: bool
  g_notes :: "string option"
  g_issues :: "string list"

record mechanical_inspection =
  m_completed :: bool
  m_results :: "inspection_result list"

record paperwork_inspection =
  p_completed :: bool
  p_vinMatch :: "passFail option"
  p_titleStatus :: "string option"
  p_ownershipVerified :: "passFail option"
  p_liens :: "string list"

record inspection_data =
  general :: general_inspection
  mechanical :: mechanical_inspection
  paperwork :: paperwork_inspection

record repair_cost =
  rc_issue :: string
  rc_estimatedCost :: int
  rc_priority :: priority

record recommendations_data =
  rec_suggestedOffer :: "int option"
  rec_maxOffer :: "int option"
  rec_walkAwayPrice :: "int option"
  rec_repairCosts :: "repair_cost list"
  rec_negotiationPoints :: "string list"

text \<open>
  The stored document. \<open>sessionId\<close> is the property every guest-scoped filter of
  \<^verbatim>\<open>controllers/evaluations.ts\<close> compares; the schema of \<^verbatim>\<open>models/CarEvaluation.ts\<close>
  does not declare it, so it is \<open>None\<close> in every document that model writes. The
  \<^verbatim>\<open>_id\<close> of a document is its key in the store (below).
\<close>

record car_evaluation =
  userId :: "objectId option"
  sessionId :: "string option"
  carDetails :: car_details
  photos :: "photo list"
  carfax :: carfax_data
  marketAnalysis :: "market_analysis option"
  inspection :: inspection_data
  recommendations :: "recommendations_data option"
  status :: evalStatus
  progress :: int
  createdAt :: date
  updatedAt :: date

section \<open>JavaScript truthiness\<close>

text \<open>
  \<^verbatim>\<open>if (x)\<close> on a number is false for \<^verbatim>\<open>undefined\<close> and for \<^verbatim>\<open>0\<close>; on a string
  it is false for \<^verbatim>\<open>undefined\<close> and for the empty string.
\<close>

definition truthyNum :: "int option \<Rightarrow> bool" where
  "truthyNum v = (case v of None \<Rightarrow> False | Some n \<Rightarrow> n \<noteq> 0)"

definition truthyStr :: "string option \<Rightarrow> bool" where
  "truthyStr v = (case v of None \<Rightarrow> False | Some s \<Rightarrow> s \<noteq> [])"

section \<open>Document methods (models/CarEvaluation.ts)\<close>

text \<open>
  \<^verbatim>\<open>calculateProgress\<close>: the value the method returns. Each \<^verbatim>\<open>progress += w\<close>
  under its \<^verbatim>\<open>if\<close> is one summand, in the order of the source.
\<close>

definition calculateProgress :: "car_evaluation \<Rightarrow> int" where
  "calculateProgress this =
     (if truthyNum (cd_year (carDetails this)) \<and> truthyStr (cd_make (carDetails this)) \<and>
         truthyStr (cd_model (carDetails this)) \<and> truthyNum (cd_mileage (carDetails this)) \<and>
         truthyNum (cd_price (carDetails this))
      then 20 else 0)
   + (if length (photos this) > 0 then 10 else 0)
   + (if (case marketAnalysis this of None \<Rightarrow> False | Some ma \<Rightarrow> truthyNum (ma_dealScore ma))
      then 25 else 0)
   + (if g_completed (general (inspection this)) then 10 else 0)
   + (if m_completed (mechanical (inspection this)) then 10 else 0)
   + (if p_completed (paperwork (inspection this)) then 10 else 0)
   + (if (case recommendations this of None \<Rightarrow> False
          | Some r \<Rightarrow> truthyNum (rec_suggestedOffer r))
      then 15 else 0)"

text \<open>The effect of the method on the document: \<^verbatim>\<open>this.progress = progress\<close>.\<close>

definition calculateProgress_this :: "car_evaluation \<Rightarrow> car_evaluation" where
  "calculateProgress_this this = this\<lparr>progress := calculateProgress this\<rparr>"


text \<open>
  The virtual \<^verbatim>\<open>carDisplayName\<close> is a template literal; a number prints in decimal and
  a missing property prints as \<^verbatim>\<open>undefined\<close>.
\<close>

function showNat :: "nat \<Rightarrow> string" where
  "showNat n =
     (if n < 10 then [''0123456789'' ! n]
      else showNat (n div 10) @ [''0123456789'' ! (n mod 10)])"
  by pat_completeness auto
termination
  by (relation "measure id") auto

declare showNat.simps [simp del]

definition showInt :: "int \<Rightarrow> string" where
  "showInt i = (if i < 0 then CHR ''-'' # showNat (nat (- i)) else showNat (nat i))"

definition carDisplayName :: "car_evaluation \<Rightarrow> string" where
  "carDisplayName this =
     (case cd_year (carDetails this) of None \<Rightarrow> ''undefined'' | Some y \<Rightarrow> showInt y) @ '' '' @
     (case cd_make (carDetails this) of None \<Rightarrow> ''undefined'' | Some s \<Rightarrow> s) @ '' '' @
     (case cd_model (carDetails this) of None \<Rightarrow> ''undefined'' | Some s \<Rightarrow> s)"

record summary =
  s_id :: objectId
  s_carDisplayName :: string
  s_status :: evalStatus
  s_progress :: int
  s_dealScore :: "int option"
  s_estimatedValue :: "int option"
  s_askingPrice :: "int option"
  s_createdAt :: date
  s_updatedAt :: date

text \<open>\<^verbatim>\<open>x || null\<close> keeps a truthy number and turns \<^verbatim>\<open>undefined\<close> and \<^verbatim>\<open>0\<close> into null.\<close>

definition orNull :: "int option \<Rightarrow> int option" where
  "orNull v = (if truthyNum v then v else None)"

definition getSummary :: "objectId \<Rightarrow> car_evaluation \<Rightarrow> summary" where
  "getSummary oid this =
     \<lparr> s_id = oid,
       s_carDisplayName = carDisplayName this,
       s_status = status this,
       s_progress = progress this,
       s_dealScore = orNull (case marketAnalysis this of None \<Rightarrow> None | Some ma \<Rightarrow> ma_dealScore ma),
       s_estimatedValue =
         orNull (case marketAnalysis this of None \<Rightarrow> None | Some ma \<Rightarrow> ma_estimatedValue ma),
       s_askingPrice = cd_price (carDetails this),
       s_createdAt = createdAt this,
       s_updatedAt = updatedAt this \<rparr>"

section \<open>Request validation (validators/evaluation.js)\<close>

text \<open>
  The request body of \<^verbatim>\<open>POST /evaluations\<close>; \<open>None\<close> is a property the body does not
  have. \<^verbatim>\<open>validateEvaluation\<close> is the chain list of the source: the result lists the
  field of every validator that fails, in the order of the chains.
\<close>

record body =
  b_year :: "int option"
  b_make :: "string option"
  b_model :: "string option"
  b_mileage :: "int option"
  b_price :: "int option"
  b_vin :: "string option"
  b_description :: "string option"

definition isSpace :: "char \<Rightarrow> bool" where
  "isSpace c = (c \<in> set [CHR '' '', CHR 0x09, CHR 0x0A, CHR 0x0B, CHR 0x0C, CHR 0x0D])"

definition trim :: "string \<Rightarrow> string" where
  "trim s = rev (dropWhile isSpace (rev (dropWhile isSpace s)))"

text \<open>The character class \<^verbatim>\<open>[A-HJ-NPR-Z0-9]\<close> of the VIN pattern.\<close>

definition vinClass :: "char \<Rightarrow> bool" where
  "vinClass c =
     ((CHR ''A'' \<le> c \<and> c \<le> CHR ''H'') \<or> (CHR ''J'' \<le> c \<and> c \<le> CHR ''N'') \<or> c = CHR ''P'' \<or>
      (CHR ''R'' \<le> c \<and> c \<le> CHR ''Z'') \<or> (CHR ''0'' \<le> c \<and> c \<le> CHR ''9''))"

text \<open>\<^verbatim>\<open>matches(/^[A-HJ-NPR-Z0-9]{17}$/)\<close>\<close>

definition matchesVinPattern :: "string \<Rightarrow> bool" where
  "matchesVinPattern v = (length v = 17 \<and> list_all vinClass v)"

definition isIntIn :: "int \<Rightarrow> int \<Rightarrow> int option \<Rightarrow> bool" where
  "isIntIn lo hi v = (case v of None \<Rightarrow> False | Some n \<Rightarrow> lo \<le> n \<and> n \<le> hi)"

definition isLengthIn :: "nat \<Rightarrow> nat \<Rightarrow> string \<Rightarrow> bool" where
  "isLengthIn lo hi s = (lo \<le> length s \<and> length s \<le> hi)"

text \<open>A sanitizer or validator reads a missing property as the empty string.\<close>

definition strOf :: "string option \<Rightarrow> string" where
  "strOf v = (case v of None \<Rightarrow> [] | Some s \<Rightarrow> s)"

definition vinErrors :: "string option \<Rightarrow> string list" where
  "vinErrors v =
     (case v of
        None \<Rightarrow> []
      | Some s \<Rightarrow>
          (if isLengthIn 17 17 s then [] else [''vin'']) @
          (if matchesVinPattern s then [] else [''vin'']))"

definition validateEvaluation :: "int \<Rightarrow> body \<Rightarrow> string list" where
  "validateEvaluation currentYear b =
     (if isIntIn 1990 (currentYear + 1) (b_year b) then [] else [''year'']) @
     (if isLengthIn 1 50 (trim (strOf (b_make b))) then [] else [''make'']) @
     (if isLengthIn 1 50 (trim (strOf (b_model b))) then [] else [''model'']) @
     (if isIntIn 0 1000000 (b_mileage b) then [] else [''mileage'']) @
     (if isIntIn 0 1000000 (b_price b) then [] else [''price'']) @
     vinErrors (b_vin b) @
     (case b_description b of
        None \<Rightarrow> []
      | Some d \<Rightarrow> if isLengthIn 0 1000 d then [] else [''description''])"

text \<open>The sanitizers of the chains (\<^verbatim>\<open>trim()\<close> on make and model) rewrite the body.\<close>

definition sanitizeBody :: "body \<Rightarrow> body" where
  "sanitizeBody b = b\<lparr> b_make := Some (trim (strOf (b_make b))),
                        b_model := Some (trim (strOf (b_model b))) \<rparr>"

text \<open>\<^verbatim>\<open>toUpperCase\<close> on ASCII text: a lower-case letter becomes its capital.\<close>

definition upperChar :: "char \<Rightarrow> char" where
  "upperChar c =
     (case map_of (zip ''abcdefghijklmnopqrstuvwxyz'' ''ABCDEFGHIJKLMNOPQRSTUVWXYZ'') c of
        None \<Rightarrow> c
      | Some u \<Rightarrow> u)"

definition toUpperCase :: "string \<Rightarrow> string" where
  "toUpperCase s = map upperChar s"


section \<open>The evaluation collection\<close>

text \<open>
  The controllers reach the collection through the calls \<^verbatim>\<open>create\<close>, \<^verbatim>\<open>find\<close>,
  \<^verbatim>\<open>findOne\<close>, \<^verbatim>\<open>findOneAndUpdate\<close>, \<^verbatim>\<open>findOneAndDelete\<close>,
  \<^verbatim>\<open>countDocuments\<close> and \<^verbatim>\<open>save\<close> of the persistence library, which is not part
  of the sources. The collection is an association list from \<^verbatim>\<open>_id\<close> to document,
  in insertion order; a key occurs once, since \<open>CarEvaluation_create\<close> refuses a key
  that is taken.
\<close>

type_synonym store = "(objectId \<times> car_evaluation) list"

text \<open>
  A filter as the controllers build it: \<open>None\<close> is a property the filter does not name.
  The session header may be missing, so the \<open>sessionId\<close> of a filter is itself optional.
\<close>

record query =
  q_id :: "objectId option"
  q_userId :: "objectId option"
  q_sessionId :: "string option option"

text \<open>
  Modelled from the spec: the filter semantics of the persistence library (missing from
  the sources). A record is selected when its owner, respectively its session id, equals
  the one asked for, as the ownership guard of the specification compares them; a
  document agrees with a filter on every property the filter names, a property named
  with the value \<^verbatim>\<open>undefined\<close> agreeing with a document that lacks it.
\<close>

definition matches :: "query \<Rightarrow> objectId \<Rightarrow> car_evaluation \<Rightarrow> bool" where
  "matches q i d =
     ((case q_id q of None \<Rightarrow> True | Some j \<Rightarrow> i = j) \<and>
      (case q_userId q of None \<Rightarrow> True | Some u \<Rightarrow> userId d = Some u) \<and>
      (case q_sessionId q of None \<Rightarrow> True | Some s \<Rightarrow> sessionId d = s))"

text \<open>
  Modelled from the spec: \<^verbatim>\<open>find\<close> and \<^verbatim>\<open>countDocuments\<close> of the persistence
  library (missing from the sources), the documents a filter selects.
\<close>

definition find_docs :: "query \<Rightarrow> store \<Rightarrow> store" where
  "find_docs q st = filter (\<lambda>(i, d). matches q i d) st"

text \<open>
  Modelled from the spec: \<^verbatim>\<open>findOne\<close> of the persistence library (missing from the
  sources): the record with the given \<^verbatim>\<open>_id\<close> if it exists and the filter selects
  it, and \<open>None\<close> for \<^verbatim>\<open>null\<close> otherwise.
\<close>

definition findOne :: "query \<Rightarrow> store \<Rightarrow> (objectId \<times> car_evaluation) option" where
  "findOne q st =
     (case q_id q of
        Some j \<Rightarrow>
          (case map_of st j of
             None \<Rightarrow> None
           | Some d \<Rightarrow> if matches q j d then Some (j, d) else None)
      | None \<Rightarrow> (case find_docs q st of [] \<Rightarrow> None | x # _ \<Rightarrow> Some x))"

datatype error =
    ValidationFailed "string list"
  | SessionIdRequired
  | EvaluationNotFound
  | MongooseValidationError "string list"
  | DuplicateKey

text \<open>
  The HTTP status of each failure: the controllers answer 400 and 404 themselves; an
  exception of the model reaches \<^verbatim>\<open>errorHandler\<close>, which answers 400 for a validation
  error and for a duplicate key.
\<close>

fun statusCode :: "error \<Rightarrow> nat" where
  "statusCode (ValidationFailed _) = 400"
| "statusCode SessionIdRequired = 400"
| "statusCode EvaluationNotFound = 404"
| "statusCode (MongooseValidationError _) = 400"
| "statusCode DuplicateKey = 400"

text \<open>
  What a request does not fix itself: the calendar year the validators were built in,
  the clock, the \<^verbatim>\<open>_id\<close> the model assigns and the token \<^verbatim>\<open>generateSessionId\<close> draws.
\<close>

record env =
  e_currentYear :: int
  e_now :: date
  e_newId :: objectId
  e_randomSession :: string

text \<open>
  The validators (\<^verbatim>\<open>required\<close>, \<^verbatim>\<open>min\<close>, \<^verbatim>\<open>max\<close>, \<^verbatim>\<open>maxlength\<close>,
  \<^verbatim>\<open>validate\<close>) and the setters (\<^verbatim>\<open>trim\<close>, \<^verbatim>\<open>uppercase\<close>) that the schema of
  \<^verbatim>\<open>models/CarEvaluation.ts\<close> declares for \<^verbatim>\<open>carDetails\<close>.
\<close>

definition schemaErrors :: "int \<Rightarrow> car_details \<Rightarrow> string list" where
  "schemaErrors currentYear cd =
     (if isIntIn 1990 (currentYear + 1) (cd_year cd) then [] else [''carDetails.year'']) @
     (if truthyStr (cd_make cd) \<and> length (strOf (cd_make cd)) \<le> 50 then []
      else [''carDetails.make'']) @
     (if truthyStr (cd_model cd) \<and> length (strOf (cd_model cd)) \<le> 50 then []
      else [''carDetails.model'']) @
     (case cd_mileage cd of None \<Rightarrow> [''carDetails.mileage'']
      | Some n \<Rightarrow> if 0 \<le> n then [] else [''carDetails.mileage'']) @
     (case cd_price cd of None \<Rightarrow> [''carDetails.price'']
      | Some n \<Rightarrow> if 0 \<le> n then [] else [''carDetails.price'']) @
     (case cd_vin cd of None \<Rightarrow> []
      | Some v \<Rightarrow> if v = [] \<or> length v = 17 then [] else [''carDetails.vin'']) @
     (case cd_description cd of None \<Rightarrow> []
      | Some d \<Rightarrow> if length d \<le> 1000 then [] else [''carDetails.description''])"

definition schemaCast :: "car_details \<Rightarrow> car_details" where
  "schemaCast cd = cd\<lparr> cd_make := map_option trim (cd_make cd),
                        cd_model := map_option trim (cd_model cd),
                        cd_vin := map_option (\<lambda>v. toUpperCase (trim v)) (cd_vin cd) \<rparr>"

text \<open>
  Modelled from the spec: \<^verbatim>\<open>CarEvaluation.create\<close> of the persistence library (missing
  from the sources). It applies the schema to the data, assigns the unique id and both
  timestamps, and appends the document; a schema violation and a key that is taken are
  errors.
\<close>

definition CarEvaluation_create ::
    "env \<Rightarrow> car_evaluation \<Rightarrow> store \<Rightarrow> error + (car_evaluation \<times> store)" where
  "CarEvaluation_create ev evaluationData st =
     (let cd = schemaCast (carDetails evaluationData) in
      if schemaErrors (e_currentYear ev) cd \<noteq> [] then
        Inl (MongooseValidationError (schemaErrors (e_currentYear ev) cd))
      else if map_of st (e_newId ev) \<noteq> None then Inl DuplicateKey
      else
        let doc = evaluationData\<lparr> carDetails := cd, createdAt := e_now ev,
                                    updatedAt := e_now ev \<rparr>
        in Inr (doc, st @ [(e_newId ev, doc)]))"

text \<open>
  \<^verbatim>\<open>save\<close> of the persistence library (not in the sources), on a document that was
  loaded from the collection, under the schema option \<^verbatim>\<open>timestamps: true\<close>. The
  library tracks what the controller assigned: a document that still equals the stored
  one is not modified, and saving it writes nothing and leaves \<open>updatedAt\<close> as it is.
  A modified document gets \<open>updatedAt\<close> set to the clock and is written back under its
  id.
\<close>

definition save :: "env \<Rightarrow> objectId \<Rightarrow> car_evaluation \<Rightarrow> store \<Rightarrow> car_evaluation \<times> store" where
  "save ev i doc st =
     (if map_of st i = Some doc then (doc, st)
      else let doc' = doc\<lparr>updatedAt := e_now ev\<rparr> in (doc', AList.update i doc' st))"

section \<open>Requests\<close>

text \<open>
  What the controllers read of a request: \<^verbatim>\<open>req.user\<close> as \<^verbatim>\<open>optionalAuth\<close> left it
  (\<open>None\<close> for a guest) and the \<^verbatim>\<open>x-session-id\<close> header (\<open>None\<close> when not sent).
\<close>

record request =
  req_user :: "objectId option"
  req_sessionHeader :: "string option"

definition getSessionId :: "request \<Rightarrow> string \<Rightarrow> string" where
  "getSessionId req generated =
     (case req_user req of
        Some u \<Rightarrow> u
      | None \<Rightarrow> if truthyStr (req_sessionHeader req) then strOf (req_sessionHeader req)
                else generated)"

text \<open>
  The filter every single-record controller builds:
  \<^verbatim>\<open>{ _id: id }\<close>, then \<^verbatim>\<open>userId\<close> for a user and \<^verbatim>\<open>sessionId\<close> for a guest.
\<close>

definition ownerQuery :: "request \<Rightarrow> objectId \<Rightarrow> query" where
  "ownerQuery req i =
     (case req_user req of
        Some u \<Rightarrow> \<lparr> q_id = Some i, q_userId = Some u, q_sessionId = None \<rparr>
      | None \<Rightarrow> \<lparr> q_id = Some i, q_userId = None, q_sessionId = Some (req_sessionHeader req) \<rparr>)"

section \<open>Controllers (controllers/evaluations.ts)\<close>

text \<open>
  \<^verbatim>\<open>createEvaluation\<close>. \<open>sessionId_local\<close> is the constant \<^verbatim>\<open>sessionId\<close> of the
  source, which no later line reads. The literal \<^verbatim>\<open>evaluationData\<close> has no
  \<^verbatim>\<open>sessionId\<close>, \<^verbatim>\<open>marketAnalysis\<close>, \<^verbatim>\<open>recommendations\<close> and no timestamps; the
  two timestamps written here are the ones \<open>CarEvaluation_create\<close> assigns.
\<close>

definition createEvaluation :: "env \<Rightarrow> request \<Rightarrow> body \<Rightarrow> store \<Rightarrow> (error + summary) \<times> store" where
  "createEvaluation ev req rawBody st =
     (let errors = validateEvaluation (e_currentYear ev) rawBody in
      if errors \<noteq> [] then (Inl (ValidationFailed errors), st)
      else
        let b = sanitizeBody rawBody;
            sessionId_local = getSessionId req (e_randomSession ev);
            evaluationData =
              \<lparr> userId = req_user req,
                sessionId = None,
                carDetails =
                  \<lparr> cd_year = b_year b, cd_make = b_make b, cd_model = b_model b,
                    cd_mileage = b_mileage b, cd_price = b_price b,
                    cd_vin = map_option toUpperCase (b_vin b),
                    cd_description = b_description b \<rparr>,
                photos = [],
                carfax =
                  \<lparr> cf_requested = False, cf_purchased = False, cf_wantCarfax = False,
                    cf_price = 0, cf_vin = strOf (map_option toUpperCase (b_vin b)),
                    cf_reportId = None, cf_data = None \<rparr>,
                marketAnalysis = None,
                inspection =
                  \<lparr> general = \<lparr> g_completed = False, g_notes = None, g_issues = [] \<rparr>,
                    mechanical = \<lparr> m_completed = False, m_results = [] \<rparr>,
                    paperwork = \<lparr> p_completed = False, p_vinMatch = None, p_titleStatus = None,
                                  p_ownershipVerified = None, p_liens = [] \<rparr> \<rparr>,
                recommendations = None,
                status = Draft,
                progress = 20,
                createdAt = e_now ev,
                updatedAt = e_now ev \<rparr>
        in case CarEvaluation_create ev evaluationData st of
             Inl e \<Rightarrow> (Inl e, st)
           | Inr (evaluation, st') \<Rightarrow> (Inr (getSummary (e_newId ev) evaluation), st'))"


text \<open>
  \<^verbatim>\<open>getEvaluations\<close>. \<open>page\<close> and \<open>limit\<close> are what \<^verbatim>\<open>parseInt\<close> made of the query
  string (\<open>None\<close> for \<^verbatim>\<open>NaN\<close>); negative values are outside the model.
\<close>

record pagination =
  pg_page :: nat
  pg_limit :: nat
  pg_total :: nat
  pg_pages :: nat

definition orDefault :: "nat option \<Rightarrow> nat \<Rightarrow> nat" where
  "orDefault v d = (case v of None \<Rightarrow> d | Some n \<Rightarrow> if n \<noteq> 0 then n else d)"

definition getEvaluations ::
    "request \<Rightarrow> nat option \<Rightarrow> nat option \<Rightarrow> store \<Rightarrow> error + (summary list \<times> pagination)" where
  "getEvaluations req pageParam limitParam st =
     (let query =
            (case req_user req of
               Some u \<Rightarrow> \<lparr> q_id = None, q_userId = Some u, q_sessionId = None \<rparr>
             | None \<Rightarrow> \<lparr> q_id = None, q_userId = None,
                         q_sessionId = Some (req_sessionHeader req) \<rparr>)
      in if req_user req = None \<and> \<not> truthyStr (req_sessionHeader req) then Inl SessionIdRequired
         else
           let page = orDefault pageParam 1;
               limit = orDefault limitParam 10;
               skip = (page - 1) * limit;
               evaluations =
                 take limit (drop skip (rev (sort_key (\<lambda>(i, d). createdAt d) (find_docs query st))));
               total = length (find_docs query st);
               summaries = map (\<lambda>(i, d). getSummary i d) evaluations
           in Inr (summaries,
                   \<lparr> pg_page = page, pg_limit = limit, pg_total = total,
                     pg_pages = (total + limit - 1) div limit \<rparr>))"

definition getEvaluation :: "request \<Rightarrow> objectId \<Rightarrow> store \<Rightarrow> error + car_evaluation" where
  "getEvaluation req i st =
     (case findOne (ownerQuery req i) st of
        None \<Rightarrow> Inl EvaluationNotFound
      | Some (j, evaluation) \<Rightarrow> Inr evaluation)"

text \<open>
  The body of \<^verbatim>\<open>PUT /evaluations/:id\<close>: one optional property per top-level path. The
  controller deletes \<^verbatim>\<open>_id\<close>, \<^verbatim>\<open>userId\<close>, \<^verbatim>\<open>createdAt\<close> and \<^verbatim>\<open>updatedAt\<close>;
  \<^verbatim>\<open>$set\<close> then writes the paths the schema declares, so a \<^verbatim>\<open>sessionId\<close> in the body
  is not written.
\<close>

record updates =
  u_id :: "objectId option"
  u_userId :: "objectId option"
  u_createdAt :: "date option"
  u_updatedAt :: "date option"
  u_sessionId :: "string option"
  u_carDetails :: "car_details option"
  u_photos :: "photo list option"
  u_carfax :: "carfax_data option"
  u_marketAnalysis :: "market_analysis option"
  u_inspection :: "inspection_data option"
  u_recommendations :: "recommendations_data option"
  u_status :: "evalStatus option"
  u_progress :: "int option"

definition deleteSensitive :: "updates \<Rightarrow> updates" where
  "deleteSensitive u = u\<lparr> u_id := None, u_userId := None, u_createdAt := None,
                           u_updatedAt := None \<rparr>"

definition orElse :: "'a option \<Rightarrow> 'a \<Rightarrow> 'a" where
  "orElse v d = (case v of None \<Rightarrow> d | Some x \<Rightarrow> x)"

text \<open>
  \<^verbatim>\<open>findOneAndUpdate\<close> of the persistence library (not in the sources) with
  \<^verbatim>\<open>$set\<close>, \<^verbatim>\<open>new: true\<close> and \<^verbatim>\<open>runValidators: true\<close>, in three parts.
  \<open>applySet\<close> is the partial merge: a property of the update replaces the property of
  the record. \<open>updateErrors\<close> are the violations of the schema's validators by the
  update. \<open>findOneAndUpdate\<close> runs the validators on the update before it queries, so
  an update that violates the schema fails whoever sends it and whatever record it
  names; an update that passes answers \<^verbatim>\<open>null\<close> when the filter selects no record,
  and otherwise stores the merged record with \<open>updatedAt\<close> set to the clock and
  returns it.
\<close>

definition applySet :: "updates \<Rightarrow> car_evaluation \<Rightarrow> car_evaluation" where
  "applySet u d =
     d\<lparr> userId := (case u_userId u of None \<Rightarrow> userId d | Some x \<Rightarrow> Some x),
        carDetails := orElse (map_option schemaCast (u_carDetails u)) (carDetails d),
        photos := orElse (u_photos u) (photos d),
        carfax := orElse (u_carfax u) (carfax d),
        marketAnalysis :=
          (case u_marketAnalysis u of None \<Rightarrow> marketAnalysis d | Some x \<Rightarrow> Some x),
        inspection := orElse (u_inspection u) (inspection d),
        recommendations :=
          (case u_recommendations u of None \<Rightarrow> recommendations d | Some x \<Rightarrow> Some x),
        status := orElse (u_status u) (status d),
        progress := orElse (u_progress u) (progress d),
        createdAt := orElse (u_createdAt u) (createdAt d) \<rparr>"

definition updateErrors :: "int \<Rightarrow> updates \<Rightarrow> string list" where
  "updateErrors currentYear u =
     (case u_carDetails u of None \<Rightarrow> [] | Some cd \<Rightarrow> schemaErrors currentYear (schemaCast cd)) @
     (case u_progress u of None \<Rightarrow> []
      | Some p \<Rightarrow> if 0 \<le> p \<and> p \<le> 100 then [] else [''progress''])"

definition findOneAndUpdate ::
    "env \<Rightarrow> query \<Rightarrow> updates \<Rightarrow> store \<Rightarrow> error + ((objectId \<times> car_evaluation) \<times> store) option" where
  "findOneAndUpdate ev q u st =
     (if updateErrors (e_currentYear ev) u \<noteq> [] then
        Inl (MongooseValidationError (updateErrors (e_currentYear ev) u))
      else
        case findOne q st of
          None \<Rightarrow> Inr None
        | Some (j, d) \<Rightarrow>
            let d' = (applySet u d)\<lparr>updatedAt := e_now ev\<rparr>
            in Inr (Some ((j, d'), AList.update j d' st)))"

definition updateEvaluation ::
    "env \<Rightarrow> request \<Rightarrow> objectId \<Rightarrow> updates \<Rightarrow> store \<Rightarrow> (error + car_evaluation) \<times> store" where
  "updateEvaluation ev req i body_updates st =
     (let query = ownerQuery req i;
          upd = deleteSensitive body_updates
      in case findOneAndUpdate ev query upd st of
           Inl e \<Rightarrow> (Inl e, st)
         | Inr None \<Rightarrow> (Inl EvaluationNotFound, st)
         | Inr (Some ((j, evaluation), st1)) \<Rightarrow>
             (case save ev j (calculateProgress_this evaluation) st1 of
                (saved, st2) \<Rightarrow> (Inr saved, st2)))"

text \<open>
  Modelled from the spec: \<^verbatim>\<open>findOneAndDelete\<close> of the persistence library (missing
  from the sources): it removes the record the filter selects and returns it, or
  answers \<^verbatim>\<open>null\<close>.
\<close>

definition findOneAndDelete :: "query \<Rightarrow> store \<Rightarrow> ((objectId \<times> car_evaluation) \<times> store) option" where
  "findOneAndDelete q st =
     (case findOne q st of
        None \<Rightarrow> None
      | Some (j, d) \<Rightarrow> Some ((j, d), AList.delete j st))"

definition deleteEvaluation :: "request \<Rightarrow> objectId \<Rightarrow> store \<Rightarrow> (error + unit) \<times> store" where
  "deleteEvaluation req i st =
     (case findOneAndDelete (ownerQuery req i) st of
        None \<Rightarrow> (Inl EvaluationNotFound, st)
      | Some (found, st') \<Rightarrow> (Inr (), st'))"

text \<open>
  \<^verbatim>\<open>analyzeMarket\<close>. The mock analysis (the object literal \<^verbatim>\<open>marketAnalysis\<close>, built
  from \<^verbatim>\<open>Math.random\<close> draws in floating point) is an argument; the controller stores
  it, sets the status, recomputes the progress and saves.
\<close>

definition analyzeMarket ::
    "env \<Rightarrow> request \<Rightarrow> objectId \<Rightarrow> market_analysis \<Rightarrow> store
      \<Rightarrow> (error + (summary \<times> market_analysis)) \<times> store" where
  "analyzeMarket ev req i mockAnalysis st =
     (case findOne (ownerQuery req i) st of
        None \<Rightarrow> (Inl EvaluationNotFound, st)
      | Some (j, evaluation) \<Rightarrow>
          (case save ev j
                  (calculateProgress_this
                     (evaluation\<lparr> marketAnalysis := Some mockAnalysis, status := Analyzing \<rparr>)) st of
             (saved, st') \<Rightarrow> (Inr (getSummary j saved, mockAnalysis), st')))"

text \<open>
  \<^verbatim>\<open>updateInspection\<close>. \<open>results\<close> is the object spread into the named section: one
  optional property per path of the three sections (a property of another section is
  not a path of the section it is spread into). \<^verbatim>\<open>completed: true\<close> comes last in each
  literal, so it wins over a \<^verbatim>\<open>completed\<close> of \<open>results\<close>.
\<close>

record inspection_patch =
  r_notes :: "string option"
  r_issues :: "string list option"
  r_results :: "inspection_result list option"
  r_vinMatch :: "passFail option"
  r_titleStatus :: "string option"
  r_ownershipVerified :: "passFail option"
  r_liens :: "string list option"

definition orKeep :: "'a option \<Rightarrow> 'a option \<Rightarrow> 'a option" where
  "orKeep new old = (case new of None \<Rightarrow> old | Some x \<Rightarrow> Some x)"

definition updateInspection ::
    "env \<Rightarrow> request \<Rightarrow> objectId \<Rightarrow> string option \<Rightarrow> inspection_patch \<Rightarrow> store
      \<Rightarrow> (error + car_evaluation) \<times> store" where
  "updateInspection ev req i inspectionType results st =
     (case findOne (ownerQuery req i) st of
        None \<Rightarrow> (Inl EvaluationNotFound, st)
      | Some (j, evaluation) \<Rightarrow>
          let insp = inspection evaluation;
              insp' =
                (if inspectionType = Some ''general'' then
                   insp\<lparr> general :=
                     \<lparr> g_completed = True,
                       g_notes = orKeep (r_notes results) (g_notes (general insp)),
                       g_issues = orElse (r_issues results) (g_issues (general insp)) \<rparr> \<rparr>
                 else if inspectionType = Some ''mechanical'' then
                   insp\<lparr> mechanical :=
                     \<lparr> m_completed = True,
                       m_results = orElse (r_results results) (m_results (mechanical insp)) \<rparr> \<rparr>
                 else if inspectionType = Some ''paperwork'' then
                   insp\<lparr> paperwork :=
                     \<lparr> p_completed = True,
                       p_vinMatch = orKeep (r_vinMatch results) (p_vinMatch (paperwork insp)),
                       p_titleStatus =
                         orKeep (r_titleStatus results) (p_titleStatus (paperwork insp)),
                       p_ownershipVerified =
                         orKeep (r_ownershipVerified results)
                           (p_ownershipVerified (paperwork insp)),
                       p_liens = orElse (r_liens results) (p_liens (paperwork insp)) \<rparr> \<rparr>
                 else insp)
          in case save ev j
                  (calculateProgress_this
                     (evaluation\<lparr> inspection := insp', status := In_progress \<rparr>)) st of
               (saved, st') \<Rightarrow> (Inr saved, st'))"

text \<open>
  \<^verbatim>\<open>generateRecommendations\<close>. The object literal \<^verbatim>\<open>recommendations\<close> (repair costs
  drawn from \<^verbatim>\<open>Math.random\<close>, offers rounded in floating point) is an argument.
\<close>

definition generateRecommendations ::
    "env \<Rightarrow> request \<Rightarrow> objectId \<Rightarrow> recommendations_data \<Rightarrow> store
      \<Rightarrow> (error + (summary \<times> recommendations_data)) \<times> store" where
  "generateRecommendations ev req i recs st =
     (case findOne (ownerQuery req i) st of
        None \<Rightarrow> (Inl EvaluationNotFound, st)
      | Some (j, evaluation) \<Rightarrow>
          (case save ev j
                  (calculateProgress_this
                     (evaluation\<lparr> recommendations := Some recs, status := Completed \<rparr>)) st of
             (saved, st') \<Rightarrow> (Inr (getSummary j saved, recs), st')))"


section \<open>The VIN alphabet in the words of the specification\<close>

text \<open>
  The specification calls the admissible characters the VIN alphabet: the capital
  letters without I, O and Q, and the digits. The validator's pattern is \<open>vinClass\<close>
  above; the two are compared below.
\<close>

definition vinAlphabet :: string where
  "vinAlphabet = ''ABCDEFGHJKLMNPRSTUVWXYZ0123456789''"

section \<open>Example requests and documents\<close>

definition exEnv :: env where
  "exEnv = \<lparr> e_currentYear = 2026, e_now = 1000, e_newId = ''e1'',
             e_randomSession = ''minted'' \<rparr>"

definition laterEnv :: env where
  "laterEnv = \<lparr> e_currentYear = 2026, e_now = 2000, e_newId = ''e2'',
                e_randomSession = ''minted2'' \<rparr>"

definition userU1 :: request where
  "userU1 = \<lparr> req_user = Some ''u1'', req_sessionHeader = None \<rparr>"

definition userU2 :: request where
  "userU2 = \<lparr> req_user = Some ''u2'', req_sessionHeader = None \<rparr>"

definition guestS1 :: request where
  "guestS1 = \<lparr> req_user = None, req_sessionHeader = Some ''S1'' \<rparr>"

definition guestNoSession :: request where
  "guestNoSession = \<lparr> req_user = None, req_sessionHeader = None \<rparr>"

definition civicBody :: body where
  "civicBody = \<lparr> b_year = Some 2020, b_make = Some ''Honda'', b_model = Some ''Civic'',
                 b_mileage = Some 30000, b_price = Some 18000, b_vin = None,
                 b_description = None \<rparr>"

definition noUpdates :: updates where
  "noUpdates = \<lparr> u_id = None, u_userId = None, u_createdAt = None, u_updatedAt = None,
                 u_sessionId = None, u_carDetails = None, u_photos = None, u_carfax = None,
                 u_marketAnalysis = None, u_inspection = None, u_recommendations = None,
                 u_status = None, u_progress = None \<rparr>"

definition noResults :: inspection_patch where
  "noResults = \<lparr> r_notes = None, r_issues = None, r_results = None, r_vinMatch = None,
                 r_titleStatus = None, r_ownershipVerified = None, r_liens = None \<rparr>"

definition exPhoto :: photo where
  "exPhoto = \<lparr> ph_id = ''p1'', ph_filename = ''front.jpg'', ph_url = ''/uploads/front.jpg'',
               ph_uploadedAt = 1500 \<rparr>"

definition exAnalysis :: market_analysis where
  "exAnalysis = \<lparr> ma_estimatedValue = Some 20000, ma_priceVsMarket = Some (- 100),
                  ma_dealScore = Some 90, ma_comparable = [] \<rparr>"

definition exRecs :: recommendations_data where
  "exRecs = \<lparr> rec_suggestedOffer = Some 18000, rec_maxOffer = Some 20000,
              rec_walkAwayPrice = Some 21000, rec_repairCosts = [],
              rec_negotiationPoints = [] \<rparr>"

text \<open>A finished evaluation of user \<open>u1\<close>, as stored.\<close>

definition exDoc :: car_evaluation where
  "exDoc =
     \<lparr> userId = Some ''u1'', sessionId = None,
       carDetails =
         \<lparr> cd_year = Some 2020, cd_make = Some ''Honda'', cd_model = Some ''Civic'',
           cd_mileage = Some 30000, cd_price = Some 18000, cd_vin = None,
           cd_description = None \<rparr>,
       photos = [exPhoto],
       carfax =
         \<lparr> cf_requested = False, cf_purchased = False, cf_wantCarfax = False, cf_price = 0,
           cf_vin = [], cf_reportId = None, cf_data = None \<rparr>,
       marketAnalysis = Some exAnalysis,
       inspection =
         \<lparr> general = \<lparr> g_completed = True, g_notes = None, g_issues = [] \<rparr>,
           mechanical = \<lparr> m_completed = True, m_results = [] \<rparr>,
           paperwork = \<lparr> p_completed = True, p_vinMatch = None, p_titleStatus = None,
                         p_ownershipVerified = None, p_liens = [] \<rparr> \<rparr>,
       recommendations = Some exRecs,
       status = Completed, progress = 100, createdAt = 1000, updatedAt = 1900 \<rparr>"

text \<open>A document that carries the session id \<open>S2\<close> and no owner.\<close>

definition sessionDoc :: car_evaluation where
  "sessionDoc = exDoc\<lparr> userId := None, sessionId := Some ''S2'' \<rparr>"

text \<open>Two updates that the schema refuses: a year before 1990 and a progress over 100.\<close>

definition oldYearUpdate :: updates where
  "oldYearUpdate = noUpdates\<lparr> u_carDetails := Some ((carDetails exDoc)\<lparr>cd_year := Some 1989\<rparr>) \<rparr>"

definition overfullUpdate :: updates where
  "overfullUpdate = noUpdates\<lparr> u_progress := Some 150 \<rparr>"

text \<open>
  The evaluation of user \<open>u1\<close> once more, already \<open>In_progress\<close>, its stored progress
  the computed one, last written at 1900.
\<close>

definition settledDoc :: car_evaluation where
  "settledDoc = exDoc\<lparr> status := In_progress \<rparr>"

text \<open>User \<open>u1\<close> creates a car with mileage 0, which the validators admit.\<close>

definition zeroMileageStore :: store where
  "zeroMileageStore =
     snd (createEvaluation exEnv userU1 (civicBody\<lparr>b_mileage := Some 0\<rparr>) [])"

text \<open>
  User \<open>u1\<close> creates a car offered at price 0 and takes it through every step: a photo,
  the market analysis, the three inspections and the recommendations.
\<close>

definition freePriceRun :: store where
  "freePriceRun =
     (let s1 = snd (createEvaluation exEnv userU1 (civicBody\<lparr>b_price := Some 0\<rparr>) []);
          s2 = snd (updateEvaluation laterEnv userU1 ''e1''
                      (noUpdates\<lparr>u_photos := Some [exPhoto]\<rparr>) s1);
          s3 = snd (analyzeMarket laterEnv userU1 ''e1'' exAnalysis s2);
          s4 = snd (updateInspection laterEnv userU1 ''e1'' (Some ''general'') noResults s3);
          s5 = snd (updateInspection laterEnv userU1 ''e1'' (Some ''mechanical'') noResults s4);
          s6 = snd (updateInspection laterEnv userU1 ''e1'' (Some ''paperwork'') noResults s5)
      in snd (generateRecommendations laterEnv userU1 ''e1'' exRecs s6))"

section \<open>Unfolding rules and lemmas on the collection\<close>

lemmas create_defs = createEvaluation_def validateEvaluation_def isIntIn_def isLengthIn_def
  trim_def isSpace_def strOf_def vinErrors_def sanitizeBody_def CarEvaluation_create_def
  schemaErrors_def schemaCast_def truthyStr_def truthyNum_def getSummary_def getSessionId_def

lemmas access_defs = findOne_def ownerQuery_def matches_def

lemmas update_defs = updateEvaluation_def findOneAndUpdate_def deleteSensitive_def applySet_def
  updateErrors_def orElse_def orKeep_def save_def calculateProgress_this_def
  calculateProgress_def

lemmas example_defs = exEnv_def laterEnv_def userU1_def userU2_def guestS1_def
  guestNoSession_def civicBody_def noUpdates_def noResults_def exPhoto_def exAnalysis_def
  exRecs_def exDoc_def sessionDoc_def oldYearUpdate_def overfullUpdate_def settledDoc_def

lemma q_id_ownerQuery: "q_id (ownerQuery req i) = Some i"
  by (simp add: ownerQuery_def split: option.splits)

lemma findOne_owner_Some:
  "findOne (ownerQuery req i) st = Some (j, d) \<Longrightarrow> j = i \<and> map_of st i = Some d"
  by (auto simp: findOne_def q_id_ownerQuery split: option.splits if_splits)

lemma findOne_owner_None:
  "map_of st i = Some r \<Longrightarrow> \<not> matches (ownerQuery req i) i r \<Longrightarrow>
     findOne (ownerQuery req i) st = None"
  by (simp add: findOne_def q_id_ownerQuery)

lemma guest_mismatch:
  "req_user req = None \<Longrightarrow> sessionId r \<noteq> req_sessionHeader req \<Longrightarrow>
     \<not> matches (ownerQuery req i) i r"
  by (simp add: matches_def ownerQuery_def)

lemma user_mismatch:
  "req_user req = Some u \<Longrightarrow> userId r \<noteq> Some u \<Longrightarrow> \<not> matches (ownerQuery req i) i r"
  by (simp add: matches_def ownerQuery_def)

lemma getEvaluation_none:
  "findOne (ownerQuery req i) st = None \<Longrightarrow> getEvaluation req i st = Inl EvaluationNotFound"
  by (simp add: getEvaluation_def)

lemma updateErrors_deleteSensitive: "updateErrors cy (deleteSensitive u) = updateErrors cy u"
  by (simp add: updateErrors_def deleteSensitive_def)

lemma updateEvaluation_none:
  "findOne (ownerQuery req i) st = None \<Longrightarrow>
     updateEvaluation ev req i u st =
       (if updateErrors (e_currentYear ev) u = [] then Inl EvaluationNotFound
        else Inl (MongooseValidationError (updateErrors (e_currentYear ev) u)), st)"
  by (simp add: updateEvaluation_def findOneAndUpdate_def updateErrors_deleteSensitive Let_def)

lemma save_result:
  "save ev i doc st = (saved, st') \<Longrightarrow> map_of st' i = Some saved \<and> status saved = status doc"
  by (auto simp: save_def Let_def update_conv' split: if_splits)

lemma unchanged_iff:
  "r\<lparr> status := a, progress := b \<rparr> = r \<longleftrightarrow> status r = a \<and> progress r = b"
proof
  assume e: "r\<lparr> status := a, progress := b \<rparr> = r"
  have "status (r\<lparr> status := a, progress := b \<rparr>) = a"
    and "progress (r\<lparr> status := a, progress := b \<rparr>) = b"
    by simp_all
  with e show "status r = a \<and> progress r = b"
    by simp
next
  assume "status r = a \<and> progress r = b"
  then show "r\<lparr> status := a, progress := b \<rparr> = r"
    by auto
qed

lemma deleteEvaluation_none:
  "findOne (ownerQuery req i) st = None \<Longrightarrow>
     deleteEvaluation req i st = (Inl EvaluationNotFound, st)"
  by (simp add: deleteEvaluation_def findOneAndDelete_def)

lemma save_same:
  "map_of st i = Some r \<Longrightarrow> status r = a \<Longrightarrow> progress r = b \<Longrightarrow>
     save ev i (r\<lparr> status := a, progress := b \<rparr>) st = (r, st)"
  by (simp add: save_def)

lemma save_changed:
  assumes "map_of st i = Some r" and "\<not> (status r = a \<and> progress r = b)"
  shows "save ev i (r\<lparr> status := a, progress := b \<rparr>) st =
       (r\<lparr> status := a, progress := b, updatedAt := e_now ev \<rparr>,
        AList.update i (r\<lparr> status := a, progress := b, updatedAt := e_now ev \<rparr>) st)"
proof -
  from assms(2) have "r\<lparr> status := a, progress := b \<rparr> \<noteq> r"
    by (simp only: unchanged_iff not_False_eq_True)
  with assms(1) have "map_of st i \<noteq> Some (r\<lparr> status := a, progress := b \<rparr>)"
    by (metis option.inject)
  then show ?thesis
    by (simp add: save_def Let_def)
qed

lemma calculateProgress_frame:
  "calculateProgress (r\<lparr> status := a \<rparr>) = calculateProgress r"
  "calculateProgress (r\<lparr> status := a, progress := b \<rparr>) = calculateProgress r"
  "calculateProgress (r\<lparr> status := a, progress := b, updatedAt := c \<rparr>) = calculateProgress r"
  by (simp_all add: calculateProgress_def)

lemma updateInspection_other:
  assumes "findOne (ownerQuery req i) st = Some (i, r)"
    and "ty \<noteq> Some ''general''" and "ty \<noteq> Some ''mechanical''" and "ty \<noteq> Some ''paperwork''"
  shows "updateInspection ev req i ty res st =
               (case save ev i (r\<lparr> status := In_progress, progress := calculateProgress r \<rparr>) st of
                  (saved, st') \<Rightarrow> (Inr saved, st'))"
  using assms
  by (simp add: updateInspection_def Let_def calculateProgress_this_def calculateProgress_frame)

lemma map_of_snoc_fresh: "map_of st k = None \<Longrightarrow> map_of (st @ [(k, d)]) k = Some d"
  by (simp add: map_add_def)

lemma create_result:
  assumes "CarEvaluation_create ev evaluationData st = Inr (doc, st')"
  shows "map_of st' (e_newId ev) = Some doc \<and> st' = st @ [(e_newId ev, doc)] \<and>
     sessionId doc = sessionId evaluationData \<and> userId doc = userId evaluationData \<and>
     progress doc = progress evaluationData \<and> status doc = status evaluationData \<and>
     cd_vin (carDetails doc) =
       map_option (\<lambda>v. toUpperCase (trim v)) (cd_vin (carDetails evaluationData))"
proof -
  from assms have e:
      "doc = evaluationData\<lparr> carDetails := schemaCast (carDetails evaluationData),
                             createdAt := e_now ev, updatedAt := e_now ev \<rparr>"
      "st' = st @ [(e_newId ev, doc)]" "map_of st (e_newId ev) = None"
    by (auto simp: CarEvaluation_create_def Let_def split: if_splits)
  from e(3) have "map_of (st @ [(e_newId ev, doc)]) (e_newId ev) = Some doc"
    by (rule map_of_snoc_fresh)
  with e(2) have "map_of st' (e_newId ev) = Some doc" by simp
  with e(1,2) show ?thesis by (simp add: schemaCast_def)
qed

lemma createEvaluation_Inr:
  assumes "createEvaluation ev req b st = (Inr s, st')"
  shows "validateEvaluation (e_currentYear ev) b = [] \<and>
         (\<exists>doc. map_of st' (e_newId ev) = Some doc \<and> st' = st @ [(e_newId ev, doc)] \<and>
            sessionId doc = None \<and> userId doc = req_user req \<and> progress doc = 20 \<and>
            status doc = Draft \<and>
            cd_vin (carDetails doc) =
              map_option (\<lambda>v. toUpperCase (trim (toUpperCase v))) (b_vin b))"
  using assms
  apply (simp add: createEvaluation_def Let_def split: if_splits sum.splits prod.splits)
  apply (drule create_result)
  apply (elim conjE)
  apply (simp add: sanitizeBody_def option.map_comp comp_def)
  done

lemma create_rejects:
  "validateEvaluation (e_currentYear ev) b \<noteq> [] \<Longrightarrow>
     createEvaluation ev req b st =
       (Inl (ValidationFailed (validateEvaluation (e_currentYear ev) b)), st)"
  by (simp add: createEvaluation_def Let_def)

section \<open>Lemmas on the VIN pattern\<close>

lemma vinClass_alphabet: "vinClass c \<longleftrightarrow> c \<in> set vinAlphabet"
  by (cases c) (simp add: vinClass_def vinAlphabet_def less_eq_char_def, blast?)

lemma upper_alphabet: "list_all (\<lambda>c. upperChar c = c) vinAlphabet"
  by (simp add: vinAlphabet_def upperChar_def)

lemma vinClass_upper: "vinClass c \<Longrightarrow> upperChar c = c"
  using upper_alphabet by (simp add: vinClass_alphabet list_all_iff)

lemma space_alphabet: "list_all (\<lambda>c. \<not> isSpace c) vinAlphabet"
  by (simp add: vinAlphabet_def isSpace_def)

lemma vinClass_not_space: "vinClass c \<Longrightarrow> \<not> isSpace c"
  using space_alphabet by (simp add: vinClass_alphabet list_all_iff)

lemma toUpperCase_vin: "list_all vinClass v \<Longrightarrow> toUpperCase v = v"
  by (induction v) (simp_all add: toUpperCase_def vinClass_upper)

lemma dropWhile_none: "list_all (\<lambda>c. \<not> P c) xs \<Longrightarrow> dropWhile P xs = xs"
  by (cases xs) simp_all

lemma trim_vin:
  assumes "list_all vinClass v"
  shows "trim v = v"
proof -
  from assms have n: "list_all (\<lambda>c. \<not> isSpace c) v"
    by (induction v) (simp_all add: vinClass_not_space)
  then have "list_all (\<lambda>c. \<not> isSpace c) (rev v)"
    by (simp add: list_all_iff)
  with n show ?thesis
    by (simp add: trim_def dropWhile_none)
qed

lemma vinErrors_pattern: "vinErrors (Some v) = [] \<longleftrightarrow> matchesVinPattern v"
  by (auto simp: vinErrors_def isLengthIn_def matchesVinPattern_def)

lemma validate_vin: "validateEvaluation cy b = [] \<Longrightarrow> vinErrors (b_vin b) = []"
  by (simp add: validateEvaluation_def)

section \<open>Properties of the progress calculator\<close>

lemma calculateProgress_range: "0 \<le> calculateProgress e \<and> calculateProgress e \<le> 100"
  by (simp add: calculateProgress_def)

lemma calculateProgress_all_checks:
  assumes "truthyNum (cd_year (carDetails e))" and "truthyStr (cd_make (carDetails e))"
    and "truthyStr (cd_model (carDetails e))" and "truthyNum (cd_mileage (carDetails e))"
    and "truthyNum (cd_price (carDetails e))" and "photos e \<noteq> []"
    and "marketAnalysis e = Some ma" and "truthyNum (ma_dealScore ma)"
    and "g_completed (general (inspection e))" and "m_completed (mechanical (inspection e))"
    and "p_completed (paperwork (inspection e))"
    and "recommendations e = Some r" and "truthyNum (rec_suggestedOffer r)"
  shows "calculateProgress e = 100"
  using assms by (simp add: calculateProgress_def)


text \<open>
  Measured by the recomputed value on both sides, adding data never lowers the progress:
  a photo, a completed section, an analysis with a deal score that is not zero, and
  recommendations where there were none.
\<close>

lemma add_photo_monotone:
  "calculateProgress e \<le> calculateProgress (e\<lparr>photos := photos e @ [p]\<rparr>)"
  by (simp add: calculateProgress_def)

lemma complete_section_monotone:
  "calculateProgress e \<le>
     calculateProgress
       (e\<lparr>inspection := (inspection e)\<lparr>general := (general (inspection e))\<lparr>g_completed := True\<rparr>\<rparr>\<rparr>)"
  "calculateProgress e \<le>
     calculateProgress
       (e\<lparr>inspection :=
            (inspection e)\<lparr>mechanical := (mechanical (inspection e))\<lparr>m_completed := True\<rparr>\<rparr>\<rparr>)"
  "calculateProgress e \<le>
     calculateProgress
       (e\<lparr>inspection :=
            (inspection e)\<lparr>paperwork := (paperwork (inspection e))\<lparr>p_completed := True\<rparr>\<rparr>\<rparr>)"
  by (simp_all add: calculateProgress_def)

lemma store_analysis_monotone:
  "truthyNum (ma_dealScore ma) \<Longrightarrow>
     calculateProgress e \<le> calculateProgress (e\<lparr>marketAnalysis := Some ma\<rparr>)"
  by (simp add: calculateProgress_def)

lemma store_recommendations_monotone:
  "recommendations e = None \<Longrightarrow>
     calculateProgress e \<le> calculateProgress (e\<lparr>recommendations := Some r\<rparr>)"
  by (simp add: calculateProgress_def)

section \<open>The example runs, evaluated\<close>

lemma zeroMileageStore_eq:
  "zeroMileageStore =
     [(''e1'',
       exDoc\<lparr> carDetails := (carDetails exDoc)\<lparr>cd_mileage := Some 0\<rparr>, photos := [],
               marketAnalysis := None,
               inspection :=
                 \<lparr> general = \<lparr> g_completed = False, g_notes = None, g_issues = [] \<rparr>,
                   mechanical = \<lparr> m_completed = False, m_results = [] \<rparr>,
                   paperwork = \<lparr> p_completed = False, p_vinMatch = None,
                                 p_titleStatus = None, p_ownershipVerified = None,
                                 p_liens = [] \<rparr> \<rparr>,
               recommendations := None, status := Draft, progress := 20,
               updatedAt := 1000 \<rparr>)]"
  by (simp add: zeroMileageStore_def create_defs example_defs Let_def)

lemma freePriceRun_eq:
  "freePriceRun =
     [(''e1'', exDoc\<lparr> carDetails := (carDetails exDoc)\<lparr>cd_price := Some 0\<rparr>,
                      progress := 80, updatedAt := 2000 \<rparr>)]"
  by (simp add: freePriceRun_def create_defs access_defs update_defs updateInspection_def
      analyzeMarket_def generateRecommendations_def example_defs Let_def)

section \<open>Guest sessions at creation\<close>

text \<open>
  Claim C1 says that a guest who creates an evaluation under session id \<open>s\<close> gets a
  record whose stored \<open>sessionId\<close> is \<open>s\<close>, so that the same guest can read it back.
  \<^verbatim>\<open>createEvaluation\<close> computes the session id and leaves it out of the document it
  creates: for the guest presenting \<open>S1\<close> the creation succeeds, the stored document
  has no \<open>sessionId\<close> and no owner, and the guest's own read of it is answered
  \<open>EvaluationNotFound\<close>.
\<close>

theorem guest_create_loses_session:
  "(\<exists>s. fst (createEvaluation exEnv guestS1 civicBody []) = Inr s) \<and>
   getSessionId guestS1 (e_randomSession exEnv) = ''S1'' \<and>
   map_option sessionId (map_of (snd (createEvaluation exEnv guestS1 civicBody [])) ''e1'')
     = Some None \<and>
   map_option userId (map_of (snd (createEvaluation exEnv guestS1 civicBody [])) ''e1'')
     = Some None \<and>
   getEvaluation guestS1 ''e1'' (snd (createEvaluation exEnv guestS1 civicBody []))
     = Inl EvaluationNotFound"
  by (simp add: create_defs access_defs getEvaluation_def example_defs Let_def)

section \<open>Isolation between guest sessions\<close>

text \<open>
  Claim C2 says that, for two distinct session ids \<open>S1\<close> and \<open>S2\<close> and a record whose
  \<open>sessionId\<close> is \<open>S2\<close>, get, update and delete of the guest presenting \<open>S1\<close> each
  fail with NotFound (404). The update is validated before the record is looked for: the
  guest presenting \<open>S1\<close> who puts the year 1989 on the record of \<open>S2\<close> is answered with
  a validation error, status 400.
\<close>

theorem guest_invalid_update_rejected:
  "sessionId sessionDoc = Some ''S2'' \<and> req_user guestS1 = None \<and>
   req_sessionHeader guestS1 = Some ''S1'' \<and>
   updateEvaluation laterEnv guestS1 ''e1'' oldYearUpdate [(''e1'', sessionDoc)]
     = (Inl (MongooseValidationError [''carDetails.year'']), [(''e1'', sessionDoc)]) \<and>
   statusCode (MongooseValidationError [''carDetails.year'']) = 400"
  by (simp add: update_defs schemaErrors_def schemaCast_def isIntIn_def strOf_def trim_def
      isSpace_def truthyStr_def example_defs Let_def)

text \<open>
  Claim C2 as amended: for two distinct session ids \<open>S1\<close> and \<open>S2\<close> and a record whose
  \<open>sessionId\<close> is \<open>S2\<close>, get and delete of the guest presenting \<open>S1\<close> fail with
  \<open>EvaluationNotFound\<close> (404); the guest's update fails with \<open>EvaluationNotFound\<close>
  (404) when its body passes the validators of the schema and with the validation error
  (400) when it does not; and every one of the three leaves the collection, hence the
  record, unchanged.
\<close>

theorem guest_isolation:
  assumes "map_of st i = Some r" and "sessionId r = Some S2" and "S1 \<noteq> S2"
    and "req_user req = None" and "req_sessionHeader req = Some S1"
  shows "getEvaluation req i st = Inl EvaluationNotFound \<and>
         deleteEvaluation req i st = (Inl EvaluationNotFound, st) \<and>
         updateEvaluation ev req i u st =
           (if updateErrors (e_currentYear ev) u = [] then Inl EvaluationNotFound
            else Inl (MongooseValidationError (updateErrors (e_currentYear ev) u)), st) \<and>
         statusCode EvaluationNotFound = 404 \<and>
         statusCode (MongooseValidationError (updateErrors (e_currentYear ev) u)) = 400"
proof -
  from assms have "\<not> matches (ownerQuery req i) i r"
    by (intro guest_mismatch) auto
  with assms(1) have "findOne (ownerQuery req i) st = None"
    by (rule findOne_owner_None)
  then show ?thesis
    by (simp add: getEvaluation_none updateEvaluation_none deleteEvaluation_none)
qed

theorem guest_isolation_witness:
  "map_of [(''e1'', sessionDoc)] ''e1'' = Some sessionDoc \<and>
   sessionId sessionDoc = Some ''S2'' \<and> ''S1'' \<noteq> ''S2'' \<and>
   req_user guestS1 = None \<and> req_sessionHeader guestS1 = Some ''S1'' \<and>
   getEvaluation guestS1 ''e1'' [(''e1'', sessionDoc)] = Inl EvaluationNotFound \<and>
   deleteEvaluation guestS1 ''e1'' [(''e1'', sessionDoc)]
     = (Inl EvaluationNotFound, [(''e1'', sessionDoc)]) \<and>
   updateErrors (e_currentYear laterEnv) (noUpdates\<lparr>u_status := Some Archived\<rparr>) = [] \<and>
   updateEvaluation laterEnv guestS1 ''e1'' (noUpdates\<lparr>u_status := Some Archived\<rparr>)
       [(''e1'', sessionDoc)] = (Inl EvaluationNotFound, [(''e1'', sessionDoc)]) \<and>
   updateErrors (e_currentYear laterEnv) overfullUpdate = [''progress''] \<and>
   updateEvaluation laterEnv guestS1 ''e1'' overfullUpdate [(''e1'', sessionDoc)]
     = (Inl (MongooseValidationError [''progress'']), [(''e1'', sessionDoc)]) \<and>
   statusCode EvaluationNotFound = 404"
proof -
  have h: "map_of [(''e1'', sessionDoc)] ''e1'' = Some sessionDoc"
    "sessionId sessionDoc = Some ''S2''" "''S1'' \<noteq> ''S2''"
    "req_user guestS1 = None" "req_sessionHeader guestS1 = Some ''S1''"
    by (simp_all add: sessionDoc_def guestS1_def)
  have v: "updateErrors (e_currentYear laterEnv) (noUpdates\<lparr>u_status := Some Archived\<rparr>) = []"
    "updateErrors (e_currentYear laterEnv) overfullUpdate = [''progress'']"
    by (simp_all add: updateErrors_def noUpdates_def overfullUpdate_def)
  show ?thesis
    using h v guest_isolation [OF h, of laterEnv "noUpdates\<lparr>u_status := Some Archived\<rparr>"]
      guest_isolation [OF h, of laterEnv overfullUpdate]
    by simp
qed

section \<open>Progress\<close>

text \<open>
  Claim C3 gives 20 points whenever year, make, model, mileage and price are all
  present, so that an evaluation with all seven sections satisfied scores exactly 100.
  \<^verbatim>\<open>calculateProgress\<close> tests the five properties for truthiness, and a price of 0 is
  present but not truthy: the evaluation that user \<open>u1\<close> creates at price 0 and takes
  through every step ends \<open>Completed\<close> with all seven sections filled and a progress
  of 80.
\<close>

theorem free_car_never_complete:
  "map_option status (map_of freePriceRun ''e1'') = Some Completed \<and>
   map_option (cd_price \<circ> carDetails) (map_of freePriceRun ''e1'') = Some (Some 0) \<and>
   map_option (length \<circ> photos) (map_of freePriceRun ''e1'') = Some 1 \<and>
   map_option marketAnalysis (map_of freePriceRun ''e1'') = Some (Some exAnalysis) \<and>
   map_option recommendations (map_of freePriceRun ''e1'') = Some (Some exRecs) \<and>
   map_option progress (map_of freePriceRun ''e1'') = Some 80"
  by (simp add: freePriceRun_eq exDoc_def)

text \<open>
  Claim C4 says that an evaluation with only its car details filled, mileage 0 and
  price 0 being admitted, has progress 20 at creation and after every recomputation.
  The car that user \<open>u1\<close> creates with mileage 0 is stored with progress 20; an update
  that changes nothing recomputes it to 0.
\<close>

theorem zero_mileage_recomputed:
  "(\<exists>s. fst (createEvaluation exEnv userU1 (civicBody\<lparr>b_mileage := Some 0\<rparr>) []) = Inr s) \<and>
   map_option progress (map_of zeroMileageStore ''e1'') = Some 20 \<and>
   map_option progress
     (map_of (snd (updateEvaluation laterEnv userU1 ''e1'' noUpdates zeroMileageStore)) ''e1'')
     = Some 0"
  by (simp add: zeroMileageStore_eq create_defs access_defs update_defs example_defs Let_def)

text \<open>
  Claim C5 says that an update that only adds data never lowers the stored progress.
  The car that user \<open>u1\<close> creates with mileage 0 is stored with progress 20; completing
  its general inspection stores progress 10.
\<close>

theorem inspection_lowers_progress:
  "map_option progress (map_of zeroMileageStore ''e1'') = Some 20 \<and>
   map_option progress
     (map_of (snd (updateInspection laterEnv userU1 ''e1'' (Some ''general'') noResults
                     zeroMileageStore)) ''e1'')
     = Some 10"
  by (simp add: zeroMileageStore_eq access_defs update_defs updateInspection_def
      truthyNum_def truthyStr_def example_defs Let_def)


section \<open>Status triggers\<close>

text \<open>
  Claim C6: after a successful analyzeMarket the stored status is \<open>Analyzing\<close>, after a
  successful updateInspection on the general, mechanical or paperwork section it is
  \<open>In_progress\<close>, and after a successful generateRecommendations it is \<open>Completed\<close>,
  whatever the status was before; so an analysis of a completed record sets it back to
  \<open>Analyzing\<close>.
\<close>

theorem status_triggers:
  "(analyzeMarket ev req i ma st = (Inr x, st1) \<longrightarrow>
      map_option status (map_of st1 i) = Some Analyzing) \<and>
   (ty \<in> {''general'', ''mechanical'', ''paperwork''} \<and>
    updateInspection ev req i (Some ty) res st = (Inr y, st2) \<longrightarrow>
      map_option status (map_of st2 i) = Some In_progress) \<and>
   (generateRecommendations ev req i recs st = (Inr z, st3) \<longrightarrow>
      map_option status (map_of st3 i) = Some Completed)"
proof (intro conjI impI)
  assume a: "analyzeMarket ev req i ma st = (Inr x, st1)"
  then obtain j d where f: "findOne (ownerQuery req i) st = Some (j, d)"
    by (auto simp: analyzeMarket_def split: option.splits)
  then have "j = i" by (simp add: findOne_owner_Some)
  with a f obtain saved where
    "save ev i (calculateProgress_this (d\<lparr> marketAnalysis := Some ma, status := Analyzing \<rparr>)) st
       = (saved, st1)"
    by (auto simp: analyzeMarket_def split: prod.splits)
  from save_result [OF this] show "map_option status (map_of st1 i) = Some Analyzing"
    by (simp add: calculateProgress_this_def)
next
  assume a: "ty \<in> {''general'', ''mechanical'', ''paperwork''} \<and>
    updateInspection ev req i (Some ty) res st = (Inr y, st2)"
  then obtain j d where f: "findOne (ownerQuery req i) st = Some (j, d)"
    by (auto simp: updateInspection_def split: option.splits)
  then have "j = i" by (simp add: findOne_owner_Some)
  with a f obtain doc saved where
    "save ev i (calculateProgress_this (doc\<lparr> status := In_progress \<rparr>)) st = (saved, st2)"
    by (auto simp: updateInspection_def Let_def split: prod.splits if_splits)
  from save_result [OF this] show "map_option status (map_of st2 i) = Some In_progress"
    by (simp add: calculateProgress_this_def)
next
  assume a: "generateRecommendations ev req i recs st = (Inr z, st3)"
  then obtain j d where f: "findOne (ownerQuery req i) st = Some (j, d)"
    by (auto simp: generateRecommendations_def split: option.splits)
  then have "j = i" by (simp add: findOne_owner_Some)
  with a f obtain saved where
    "save ev i (calculateProgress_this (d\<lparr> recommendations := Some recs, status := Completed \<rparr>))
        st = (saved, st3)"
    by (auto simp: generateRecommendations_def split: prod.splits)
  from save_result [OF this] show "map_option status (map_of st3 i) = Some Completed"
    by (simp add: calculateProgress_this_def)
qed

theorem status_triggers_witness:
  "status exDoc = Completed \<and>
   (\<exists>x. fst (analyzeMarket laterEnv userU1 ''e1'' exAnalysis [(''e1'', exDoc)]) = Inr x) \<and>
   map_option status
     (map_of (snd (analyzeMarket laterEnv userU1 ''e1'' exAnalysis [(''e1'', exDoc)])) ''e1'')
     = Some Analyzing \<and>
   (\<exists>y. fst (updateInspection laterEnv userU1 ''e1'' (Some ''mechanical'') noResults
               [(''e1'', exDoc)]) = Inr y) \<and>
   map_option status
     (map_of (snd (updateInspection laterEnv userU1 ''e1'' (Some ''mechanical'') noResults
                     [(''e1'', exDoc)])) ''e1'')
     = Some In_progress \<and>
   (\<exists>z. fst (generateRecommendations laterEnv userU1 ''e1'' exRecs [(''e1'', exDoc)]) = Inr z) \<and>
   map_option status
     (map_of (snd (generateRecommendations laterEnv userU1 ''e1'' exRecs [(''e1'', exDoc)]))
        ''e1'')
     = Some Completed"
proof -
  have f: "findOne (ownerQuery userU1 ''e1'') [(''e1'', exDoc)] = Some (''e1'', exDoc)"
    by (simp add: access_defs userU1_def exDoc_def)
  have a: "\<exists>x. fst (analyzeMarket laterEnv userU1 ''e1'' exAnalysis [(''e1'', exDoc)]) = Inr x"
    by (simp add: analyzeMarket_def f save_def Let_def)
  have b: "\<exists>y. fst (updateInspection laterEnv userU1 ''e1'' (Some ''mechanical'') noResults
               [(''e1'', exDoc)]) = Inr y"
    by (simp add: updateInspection_def f save_def Let_def)
  have c: "\<exists>z. fst (generateRecommendations laterEnv userU1 ''e1'' exRecs [(''e1'', exDoc)])
              = Inr z"
    by (simp add: generateRecommendations_def f save_def Let_def)
  from a obtain x where
    "analyzeMarket laterEnv userU1 ''e1'' exAnalysis [(''e1'', exDoc)] =
       (Inr x, snd (analyzeMarket laterEnv userU1 ''e1'' exAnalysis [(''e1'', exDoc)]))"
    by (metis prod.collapse)
  moreover from b obtain y where
    "updateInspection laterEnv userU1 ''e1'' (Some ''mechanical'') noResults [(''e1'', exDoc)] =
       (Inr y, snd (updateInspection laterEnv userU1 ''e1'' (Some ''mechanical'') noResults
                      [(''e1'', exDoc)]))"
    by (metis prod.collapse)
  moreover from c obtain z where
    "generateRecommendations laterEnv userU1 ''e1'' exRecs [(''e1'', exDoc)] =
       (Inr z, snd (generateRecommendations laterEnv userU1 ''e1'' exRecs [(''e1'', exDoc)]))"
    by (metis prod.collapse)
  moreover have "''mechanical'' \<in> {''general'', ''mechanical'', ''paperwork''}"
    by simp
  moreover have "status exDoc = Completed"
    by (simp add: exDoc_def)
  ultimately show ?thesis
    using a b c
      status_triggers [of laterEnv userU1 "''e1''" exAnalysis "[(''e1'', exDoc)]" x _
        "''mechanical''" noResults y _ exRecs z _]
    by blast
qed

section \<open>The VIN at creation\<close>

text \<open>
  Claim C7 says that at creation the VIN \<open>1HGCM82633A12345\<close> is accepted and stored in
  capitals while every VIN of 16 characters is rejected. That VIN has 16 characters, and
  the creation rejects it.
\<close>

theorem example_vin_rejected:
  "length ''1HGCM82633A12345'' = 16 \<and>
   createEvaluation exEnv userU1 (civicBody\<lparr>b_vin := Some ''1HGCM82633A12345''\<rparr>) []
     = (Inl (ValidationFailed [''vin'', ''vin'']), [])"
  by (simp add: create_defs matchesVinPattern_def example_defs Let_def)

text \<open>
  Claim C7 as amended: a supplied VIN passes the validation exactly when it has 17
  characters, all of the VIN alphabet (capital letters without I, O and Q, and digits);
  a creation with a VIN of 16 characters, \<open>1HGCM82633A12345\<close> among them, is rejected
  with a validation error (400) and stores nothing; and a creation that succeeds stores
  the VIN in capitals, which is the VIN as supplied.
\<close>

theorem vin_validation:
  "(vinErrors (Some v) = [] \<longleftrightarrow> length v = 17 \<and> set v \<subseteq> set vinAlphabet) \<and>
   (b_vin b = Some v \<and> length v = 16 \<longrightarrow>
      (\<exists>errs. createEvaluation ev req b st = (Inl (ValidationFailed errs), st) \<and>
         statusCode (ValidationFailed errs) = 400)) \<and>
   (b_vin b = Some v \<and> createEvaluation ev req b st = (Inr s, st') \<longrightarrow>
      toUpperCase v = v \<and>
      map_option (cd_vin \<circ> carDetails) (map_of st' (e_newId ev)) = Some (Some (toUpperCase v)))"
proof (intro conjI impI)
  show "vinErrors (Some v) = [] \<longleftrightarrow> length v = 17 \<and> set v \<subseteq> set vinAlphabet"
    by (auto simp: vinErrors_pattern matchesVinPattern_def list_all_iff vinClass_alphabet)
next
  assume a: "b_vin b = Some v \<and> length v = 16"
  then have "vinErrors (b_vin b) \<noteq> []"
    by (simp add: vinErrors_def isLengthIn_def)
  then have "validateEvaluation (e_currentYear ev) b \<noteq> []"
    using validate_vin by blast
  then show "\<exists>errs. createEvaluation ev req b st = (Inl (ValidationFailed errs), st) \<and>
         statusCode (ValidationFailed errs) = 400"
    by (simp add: create_rejects)
next
  assume a: "b_vin b = Some v \<and> createEvaluation ev req b st = (Inr s, st')"
  then have "vinErrors (Some v) = []"
    using createEvaluation_Inr validate_vin by metis
  then have cls: "list_all vinClass v"
    by (simp add: vinErrors_pattern matchesVinPattern_def)
  then have up: "toUpperCase v = v" and tr: "trim v = v"
    by (simp_all add: toUpperCase_vin trim_vin)
  from up show "toUpperCase v = v" .
  from a obtain doc where "map_of st' (e_newId ev) = Some doc"
    "cd_vin (carDetails doc) = map_option (\<lambda>v. toUpperCase (trim (toUpperCase v))) (b_vin b)"
    using createEvaluation_Inr by blast
  with a up tr
  show "map_option (cd_vin \<circ> carDetails) (map_of st' (e_newId ev)) = Some (Some (toUpperCase v))"
    by simp
qed

theorem vin_validation_witness:
  "vinErrors (Some ''1HGCM82633A123456'') = [] \<and> length ''1HGCM82633A123456'' = 17 \<and>
   length ''1HGCM82633A12345'' = 16 \<and>
   (\<exists>errs. createEvaluation exEnv userU1 (civicBody\<lparr>b_vin := Some ''1HGCM82633A12345''\<rparr>) []
             = (Inl (ValidationFailed errs), [])) \<and>
   (\<exists>s. fst (createEvaluation exEnv userU1 (civicBody\<lparr>b_vin := Some ''1HGCM82633A123456''\<rparr>) [])
          = Inr s) \<and>
   map_option (cd_vin \<circ> carDetails)
     (map_of (snd (createEvaluation exEnv userU1
                     (civicBody\<lparr>b_vin := Some ''1HGCM82633A123456''\<rparr>) [])) (e_newId exEnv))
     = Some (Some ''1HGCM82633A123456'')"
proof -
  have ok: "\<exists>s. fst (createEvaluation exEnv userU1
                       (civicBody\<lparr>b_vin := Some ''1HGCM82633A123456''\<rparr>) []) = Inr s"
    by (simp add: create_defs matchesVinPattern_def vinClass_def toUpperCase_def upperChar_def
        example_defs Let_def)
  then obtain s where run:
    "createEvaluation exEnv userU1 (civicBody\<lparr>b_vin := Some ''1HGCM82633A123456''\<rparr>) [] =
       (Inr s, snd (createEvaluation exEnv userU1
                      (civicBody\<lparr>b_vin := Some ''1HGCM82633A123456''\<rparr>) []))"
    by (metis prod.collapse)
  have v17: "b_vin (civicBody\<lparr>b_vin := Some ''1HGCM82633A123456''\<rparr>) = Some ''1HGCM82633A123456''"
    and v16: "b_vin (civicBody\<lparr>b_vin := Some ''1HGCM82633A12345''\<rparr>) = Some ''1HGCM82633A12345''"
    and l16: "length ''1HGCM82633A12345'' = 16" and l17: "length ''1HGCM82633A123456'' = 17"
    by simp_all
  from vin_validation [of "''1HGCM82633A123456''" "civicBody\<lparr>b_vin := Some ''1HGCM82633A123456''\<rparr>"
      exEnv userU1 "[]" s] v17 run
  have stored: "toUpperCase ''1HGCM82633A123456'' = ''1HGCM82633A123456''"
    "map_option (cd_vin \<circ> carDetails)
       (map_of (snd (createEvaluation exEnv userU1
                       (civicBody\<lparr>b_vin := Some ''1HGCM82633A123456''\<rparr>) [])) (e_newId exEnv))
     = Some (Some (toUpperCase ''1HGCM82633A123456''))"
    by blast+
  have passes: "vinErrors (Some ''1HGCM82633A123456'') = []"
    by (simp add: vinErrors_def isLengthIn_def matchesVinPattern_def vinClass_def)
  from vin_validation [of "''1HGCM82633A12345''" "civicBody\<lparr>b_vin := Some ''1HGCM82633A12345''\<rparr>"
      exEnv userU1 "[]"] v16 l16
  have "\<exists>errs. createEvaluation exEnv userU1 (civicBody\<lparr>b_vin := Some ''1HGCM82633A12345''\<rparr>) []
             = (Inl (ValidationFailed errs), [])"
    by blast
  with ok stored passes l16 l17 show ?thesis
    by simp
qed


section \<open>Listing without a session\<close>

text \<open>
  Claim C8 says that the list of a guest who supplies no session id is a successful
  empty page. \<^verbatim>\<open>getEvaluations\<close> answers such a guest with the error
  \<open>SessionIdRequired\<close>, status 400.
\<close>

theorem guest_list_rejected:
  "getEvaluations guestNoSession None None [] = Inl SessionIdRequired \<and>
   statusCode SessionIdRequired = 400"
  by (simp add: getEvaluations_def truthyStr_def guestNoSession_def)

text \<open>
  Claim C8 as amended: the list of a guest who supplies no session id fails with
  \<open>SessionIdRequired\<close> (400, "Session ID required for guest access"), whatever the
  collection holds and whatever page is asked for.
\<close>

theorem list_without_session:
  assumes "req_user req = None" and "req_sessionHeader req = None"
  shows "getEvaluations req pageParam limitParam st = Inl SessionIdRequired \<and>
         statusCode SessionIdRequired = 400"
  using assms by (simp add: getEvaluations_def truthyStr_def)

theorem list_without_session_witness:
  "req_user guestNoSession = None \<and> req_sessionHeader guestNoSession = None \<and>
   getEvaluations guestNoSession (Some 2) (Some 5) [(''e1'', exDoc), (''e2'', sessionDoc)]
     = Inl SessionIdRequired \<and>
   statusCode SessionIdRequired = 400"
proof -
  have h: "req_user guestNoSession = None" "req_sessionHeader guestNoSession = None"
    by (simp_all add: guestNoSession_def)
  from list_without_session [OF h] h show ?thesis
    by simp
qed

section \<open>Denial for the wrong owner\<close>

text \<open>
  Claim C9 says that on a record whose owner does not match the caller a get, update or
  delete is denied, with 404 to a guest and 403 to an authenticated user whose id is not
  the owner's. User \<open>u2\<close> asking for, updating or deleting the record of user \<open>u1\<close> is
  answered \<open>EvaluationNotFound\<close>, status 404, not 403, and with a validation error,
  status 400, when the update puts the progress 150. The guest who sends no session
  header is not denied on that record, which carries no \<open>sessionId\<close>: the guest reads
  it and deletes it.
\<close>

theorem denial_not_as_claimed:
  "userId exDoc = Some ''u1'' \<and> sessionId exDoc = None \<and> req_user userU2 = Some ''u2'' \<and>
   getEvaluation userU2 ''e1'' [(''e1'', exDoc)] = Inl EvaluationNotFound \<and>
   fst (updateEvaluation laterEnv userU2 ''e1'' noUpdates [(''e1'', exDoc)])
     = Inl EvaluationNotFound \<and>
   fst (deleteEvaluation userU2 ''e1'' [(''e1'', exDoc)]) = Inl EvaluationNotFound \<and>
   statusCode EvaluationNotFound = 404 \<and> statusCode EvaluationNotFound \<noteq> 403 \<and>
   updateEvaluation laterEnv userU2 ''e1'' overfullUpdate [(''e1'', exDoc)]
     = (Inl (MongooseValidationError [''progress'']), [(''e1'', exDoc)]) \<and>
   statusCode (MongooseValidationError [''progress'']) = 400 \<and>
   req_user guestNoSession = None \<and> req_sessionHeader guestNoSession = None \<and>
   getEvaluation guestNoSession ''e1'' [(''e1'', exDoc)] = Inr exDoc \<and>
   deleteEvaluation guestNoSession ''e1'' [(''e1'', exDoc)] = (Inr (), [])"
  by (simp add: getEvaluation_def updateEvaluation_def findOneAndUpdate_def updateErrors_def
      deleteSensitive_def deleteEvaluation_def findOneAndDelete_def access_defs userU2_def
      guestNoSession_def noUpdates_def overfullUpdate_def exDoc_def Let_def)

text \<open>
  Claim C9 as amended: on an existing record, for a caller who is an authenticated user
  whose id differs from the record's \<open>userId\<close>, or a guest whose session header differs
  from the record's \<open>sessionId\<close>, get and delete are denied with \<open>EvaluationNotFound\<close>
  (404), never 403; update is denied with \<open>EvaluationNotFound\<close> (404) when its body
  passes the validators of the schema and fails with the validation error (400) when it
  does not; and the collection is unchanged. Nothing is said of the guest whose header
  is missing on a record whose \<open>sessionId\<close> is missing.
\<close>

theorem owner_mismatch_not_found:
  assumes "map_of st i = Some r"
    and "case req_user req of Some u \<Rightarrow> userId r \<noteq> Some u
         | None \<Rightarrow> sessionId r \<noteq> req_sessionHeader req"
  shows "getEvaluation req i st = Inl EvaluationNotFound \<and>
         deleteEvaluation req i st = (Inl EvaluationNotFound, st) \<and>
         updateEvaluation ev req i u st =
           (if updateErrors (e_currentYear ev) u = [] then Inl EvaluationNotFound
            else Inl (MongooseValidationError (updateErrors (e_currentYear ev) u)), st) \<and>
         statusCode EvaluationNotFound = 404 \<and>
         statusCode (MongooseValidationError (updateErrors (e_currentYear ev) u)) = 400"
proof -
  from assms(2) have "\<not> matches (ownerQuery req i) i r"
    by (cases "req_user req") (simp_all add: guest_mismatch user_mismatch)
  with assms(1) have "findOne (ownerQuery req i) st = None"
    by (rule findOne_owner_None)
  then show ?thesis
    by (simp add: getEvaluation_none updateEvaluation_none deleteEvaluation_none)
qed

theorem owner_mismatch_witness:
  "map_of [(''e1'', exDoc)] ''e1'' = Some exDoc \<and>
   req_user userU2 = Some ''u2'' \<and> userId exDoc \<noteq> Some ''u2'' \<and>
   req_user guestS1 = None \<and> sessionId exDoc \<noteq> req_sessionHeader guestS1 \<and>
   updateErrors (e_currentYear laterEnv) noUpdates = [] \<and>
   updateErrors (e_currentYear laterEnv) overfullUpdate = [''progress''] \<and>
   getEvaluation userU2 ''e1'' [(''e1'', exDoc)] = Inl EvaluationNotFound \<and>
   deleteEvaluation userU2 ''e1'' [(''e1'', exDoc)] = (Inl EvaluationNotFound, [(''e1'', exDoc)]) \<and>
   updateEvaluation laterEnv userU2 ''e1'' noUpdates [(''e1'', exDoc)]
     = (Inl EvaluationNotFound, [(''e1'', exDoc)]) \<and>
   updateEvaluation laterEnv userU2 ''e1'' overfullUpdate [(''e1'', exDoc)]
     = (Inl (MongooseValidationError [''progress'']), [(''e1'', exDoc)]) \<and>
   getEvaluation guestS1 ''e1'' [(''e1'', exDoc)] = Inl EvaluationNotFound \<and>
   deleteEvaluation guestS1 ''e1'' [(''e1'', exDoc)] = (Inl EvaluationNotFound, [(''e1'', exDoc)]) \<and>
   updateEvaluation laterEnv guestS1 ''e1'' noUpdates [(''e1'', exDoc)]
     = (Inl EvaluationNotFound, [(''e1'', exDoc)]) \<and>
   statusCode EvaluationNotFound = 404"
proof -
  have m: "map_of [(''e1'', exDoc)] ''e1'' = Some exDoc"
    by simp
  have u: "req_user userU2 = Some ''u2''" "userId exDoc \<noteq> Some ''u2''"
    by (simp_all add: userU2_def exDoc_def)
  have g: "req_user guestS1 = None" "sessionId exDoc \<noteq> req_sessionHeader guestS1"
    by (simp_all add: guestS1_def exDoc_def)
  have v: "updateErrors (e_currentYear laterEnv) noUpdates = []"
    "updateErrors (e_currentYear laterEnv) overfullUpdate = [''progress'']"
    by (simp_all add: updateErrors_def noUpdates_def overfullUpdate_def)
  from u have hu: "case req_user userU2 of Some u \<Rightarrow> userId exDoc \<noteq> Some u
         | None \<Rightarrow> sessionId exDoc \<noteq> req_sessionHeader userU2"
    by simp
  from g have hg: "case req_user guestS1 of Some u \<Rightarrow> userId exDoc \<noteq> Some u
         | None \<Rightarrow> sessionId exDoc \<noteq> req_sessionHeader guestS1"
    by simp
  from owner_mismatch_not_found [OF m hu, of laterEnv noUpdates]
    owner_mismatch_not_found [OF m hu, of laterEnv overfullUpdate]
    owner_mismatch_not_found [OF m hg, of laterEnv noUpdates] m u g v
  show ?thesis
    by simp
qed

section \<open>An inspection type that names no section\<close>

text \<open>
  Claim C10 says that an updateInspection whose inspection type is none of general,
  mechanical and paperwork refreshes \<open>updatedAt\<close>, for every evaluation. On the record
  of user \<open>u1\<close> that is already \<open>In_progress\<close> with its progress up to date, last
  written at 1900, such a request at 2000 assigns what is stored already: the document
  is not modified, the save writes nothing, and \<open>updatedAt\<close> stays 1900.
\<close>

theorem settled_record_not_stamped:
  "updatedAt settledDoc = 1900 \<and> e_now laterEnv = 2000 \<and>
   updateInspection laterEnv userU1 ''e1'' (Some ''exterior'') noResults [(''e1'', settledDoc)]
     = (Inr settledDoc, [(''e1'', settledDoc)])"
  by (simp add: updateInspection_def save_def calculateProgress_this_def calculateProgress_def
      truthyNum_def truthyStr_def access_defs example_defs Let_def)

text \<open>
  Claim C10 as amended: when the caller may access the record and the inspection type
  of the request is none of general, mechanical and paperwork, updateInspection leaves
  the three inspection sections as they are and answers with success, not with an
  error; the document it answers with has the status \<open>In_progress\<close> and the recomputed
  progress. When the record was \<open>In_progress\<close> already with that progress, nothing is
  written and \<open>updatedAt\<close> stays; otherwise the document is written with \<open>updatedAt\<close>
  refreshed.
\<close>

theorem unknown_inspection_type:
  assumes "findOne (ownerQuery req i) st = Some (i, r)"
    and "ty \<noteq> Some ''general''" and "ty \<noteq> Some ''mechanical''" and "ty \<noteq> Some ''paperwork''"
  shows "\<exists>saved.
           saved = r\<lparr> status := In_progress, progress := calculateProgress r,
                      updatedAt := (if status r = In_progress \<and> progress r = calculateProgress r
                                    then updatedAt r else e_now ev) \<rparr> \<and>
           updateInspection ev req i ty res st =
             (Inr saved,
              if status r = In_progress \<and> progress r = calculateProgress r then st
              else AList.update i saved st) \<and>
           inspection saved = inspection r \<and> status saved = In_progress \<and>
           progress saved = calculateProgress saved"
proof -
  from assms(1) have m: "map_of st i = Some r"
    using findOne_owner_Some by blast
  note run = updateInspection_other [OF assms, of ev res]
  show ?thesis
  proof (cases "status r = In_progress \<and> progress r = calculateProgress r")
    case True
    with m have "save ev i (r\<lparr> status := In_progress, progress := calculateProgress r \<rparr>) st
        = (r, st)"
      by (simp add: save_same)
    with run have "updateInspection ev req i ty res st = (Inr r, st)"
      by simp
    moreover from True
    have "r = r\<lparr> status := In_progress, progress := calculateProgress r, updatedAt := updatedAt r \<rparr>"
      by simp
    ultimately show ?thesis
      using True by (simp add: calculateProgress_frame)
  next
    case False
    with m have "save ev i (r\<lparr> status := In_progress, progress := calculateProgress r \<rparr>) st
        = (r\<lparr> status := In_progress, progress := calculateProgress r, updatedAt := e_now ev \<rparr>,
           AList.update i
             (r\<lparr> status := In_progress, progress := calculateProgress r, updatedAt := e_now ev \<rparr>)
             st)"
      by (rule save_changed)
    with run show ?thesis
      by (simp only: if_not_P [OF False]) (simp add: calculateProgress_frame)
  qed
qed

theorem unknown_inspection_type_witness:
  "findOne (ownerQuery userU1 ''e1'') [(''e1'', exDoc\<lparr>status := Draft, progress := 20\<rparr>)]
     = Some (''e1'', exDoc\<lparr>status := Draft, progress := 20\<rparr>) \<and>
   Some ''exterior'' \<noteq> Some ''general'' \<and> Some ''exterior'' \<noteq> Some ''mechanical'' \<and>
   Some ''exterior'' \<noteq> Some ''paperwork'' \<and>
   updateInspection laterEnv userU1 ''e1'' (Some ''exterior'')
       (noResults\<lparr>r_notes := Some ''scratches''\<rparr>)
       [(''e1'', exDoc\<lparr>status := Draft, progress := 20\<rparr>)]
     = (Inr (exDoc\<lparr>status := In_progress, progress := 100, updatedAt := 2000\<rparr>),
        [(''e1'', exDoc\<lparr>status := In_progress, progress := 100, updatedAt := 2000\<rparr>)])"
proof -
  have f: "findOne (ownerQuery userU1 ''e1'') [(''e1'', exDoc\<lparr>status := Draft, progress := 20\<rparr>)]
     = Some (''e1'', exDoc\<lparr>status := Draft, progress := 20\<rparr>)"
    by (simp add: access_defs userU1_def exDoc_def)
  have t: "Some ''exterior'' \<noteq> Some ''general''" "Some ''exterior'' \<noteq> Some ''mechanical''"
    "Some ''exterior'' \<noteq> Some ''paperwork''"
    by simp_all
  have p: "calculateProgress (exDoc\<lparr>status := Draft, progress := 20\<rparr>) = 100"
    by (simp add: calculateProgress_def truthyNum_def truthyStr_def exDoc_def exAnalysis_def
        exRecs_def)
  have n: "e_now laterEnv = 2000"
    by (simp add: laterEnv_def)
  have c: "status (exDoc\<lparr>status := Draft, progress := 20\<rparr>) \<noteq> In_progress"
    by simp
  from unknown_inspection_type [OF f t, of laterEnv "noResults\<lparr>r_notes := Some ''scratches''\<rparr>"] c
  obtain saved where
    "saved = exDoc\<lparr>status := Draft, progress := 20\<rparr>
       \<lparr> status := In_progress,
         progress := calculateProgress (exDoc\<lparr>status := Draft, progress := 20\<rparr>),
         updatedAt := e_now laterEnv \<rparr>"
    "updateInspection laterEnv userU1 ''e1'' (Some ''exterior'')
       (noResults\<lparr>r_notes := Some ''scratches''\<rparr>)
       [(''e1'', exDoc\<lparr>status := Draft, progress := 20\<rparr>)]
     = (Inr saved, AList.update ''e1'' saved [(''e1'', exDoc\<lparr>status := Draft, progress := 20\<rparr>)])"
    by auto
  with f t p n show ?thesis
    by simp
qed

end
